theory Spec2Isabelle
  imports Complex_Main
begin

section \<open>The rate limiter of limiter.py\<close>

text \<open>
  The model covers the class \<open>Limiter\<close>: \<open>incrementRate\<close>, the two algorithms
  \<open>_A1_incrementRate\<close> and \<open>_A2_incrementRate\<close>, and the accessors \<open>_get\<close> and
  \<open>_set\<close>. Python's floats are idealised as real numbers, Python's unbounded integers
  are \<open>int\<close>, and \<open>time.time()\<close> is the argument \<open>now\<close> of every operation. A leading
  underscore of a source name is dropped, since an Isabelle name cannot start with one,
  and the variable \<open>last\<close> is written \<open>last'\<close>, since \<open>last\<close> is a list function of HOL.
  The module's set-up of the locale and of logging and the calls of \<open>logger.debug\<close>,
  which follow the calls of \<open>_set\<close>, are not modelled.
\<close>

subsection \<open>Constants\<close>

text \<open>Limiter status: \<open>STATUS_NO_BLOCK = 0\<close>, \<open>STATUS_SHORT_BLOCK = 1\<close>,
  \<open>STATUS_EXTENDED_BLOCK = 2\<close>.\<close>

datatype status = STATUS_NO_BLOCK | STATUS_SHORT_BLOCK | STATUS_EXTENDED_BLOCK

definition A1_ALGORITHM_ID :: int where
  "A1_ALGORITHM_ID = 1"

definition A1_MAXIMUM_RATE :: real where
  "A1_MAXIMUM_RATE = 4"

definition A1_MAXIMUM_EXCESSES :: int where
  "A1_MAXIMUM_EXCESSES = 30"

definition A1_EXTENDED_BLOCK_EXPIRATION :: int where
  "A1_EXTENDED_BLOCK_EXPIRATION = 21600"

definition A1_EXPIRATION :: int where
  "A1_EXPIRATION = 3600"

definition ALGORITHM_ID_A2 :: int where
  "ALGORITHM_ID_A2 = 2"

definition A2_REQUESTS :: real where
  "A2_REQUESTS = 10"

definition A2_PERIOD :: real where
  "A2_PERIOD = 5"

definition A2_ALLOWANCE :: real where
  "A2_ALLOWANCE = A2_REQUESTS / A2_PERIOD"

definition A2_MAXIMUM_EXCESSES :: int where
  "A2_MAXIMUM_EXCESSES = 30"

definition A2_EXTENDED_BLOCK_EXPIRATION :: int where
  "A2_EXTENDED_BLOCK_EXPIRATION = 60 * 60 * 6"

definition A2_EXPIRATION :: int where
  "A2_EXPIRATION = 3600"

definition A3_ALGORITHM_ID :: int where
  "A3_ALGORITHM_ID = 3"

text \<open>The algorithm selected in the source is algorithm 3.\<close>

definition ALGORITHM_ID :: int where
  "ALGORITHM_ID = A3_ALGORITHM_ID"

subsection \<open>Errors, stored values and the database\<close>

datatype error =
    ValueError string
  | AttributeError string
  | NameError string
  | ZeroDivisionError

text \<open>The value kept per client: \<open>(rate or allowance, last, excesses, status)\<close>.\<close>

type_synonym data = "real \<times> real \<times> int \<times> status"

text \<open>A client identifier as Python passes it: \<open>None\<close> or a string. \<open>truthy\<close> is
  what \<open>if key\<close> tests.\<close>

definition truthy :: "string option \<Rightarrow> bool" where
  "truthy key = (case key of None \<Rightarrow> False | Some k \<Rightarrow> k \<noteq> [])"

text \<open>
  The constructor leaves \<open>self._database = None\<close> with the comment "replace this with
  something worthy": the database is not part of the source. It is a key-value store with
  an expiration per entry; the record below keeps its entries and, for the claims about
  store accesses, the calls that reached it.
\<close>

datatype call = Get string | Set string data int

record database =
  entries :: "string \<rightharpoonup> data \<times> int"
  calls :: "call list"

text \<open>Modelled from the spec: the store's \<open>get(key) -> value | absent\<close>, missing from
  the source. An absent entry is \<open>None\<close>.\<close>

definition database_get :: "string \<Rightarrow> database \<Rightarrow> data option \<times> database" where
  "database_get key db =
     (map_option fst (entries db key), db\<lparr>calls := calls db @ [Get key]\<rparr>)"

text \<open>Modelled from the spec: the store's \<open>set(key, value, ttl)\<close>, missing from the
  source.\<close>

definition database_set :: "string \<Rightarrow> data \<Rightarrow> int \<Rightarrow> database \<Rightarrow> database" where
  "database_set key v expiration db =
     db\<lparr>entries := (entries db)(key \<mapsto> (v, expiration)),
        calls := calls db @ [Set key v expiration]\<rparr>"

subsection \<open>The accessors\<close>

text \<open>\<open>_get\<close>: raise \<open>ValueError\<close> on a missing key, else ask the database.\<close>

definition Limiter_get ::
  "string option \<Rightarrow> database \<Rightarrow> (error + data option) \<times> database" where
  "Limiter_get key db =
     (if \<not> truthy key then (Inl (ValueError ''Missing or invalid key''), db)
      else (case database_get (the key) db of (v, db') \<Rightarrow> (Inr v, db')))"

text \<open>\<open>_set\<close>: raise \<open>ValueError\<close> on a missing key, else store the value with its
  expiration.\<close>

definition Limiter_set ::
  "string option \<Rightarrow> data \<Rightarrow> int \<Rightarrow> database \<Rightarrow> (error + unit) \<times> database" where
  "Limiter_set key v expiration db =
     (if \<not> truthy key then (Inl (ValueError ''Missing or invalid key''), db)
      else (Inr (), database_set (the key) v expiration db))"

subsection \<open>Algorithm 1\<close>

text \<open>The initial values of \<open>rate, last, excesses, status\<close> (line 236).\<close>

definition A1_initial :: data where
  "A1_initial = (0, 0, 0, STATUS_NO_BLOCK)"

text \<open>
  Lines 249 to 272 of \<open>_A1_incrementRate\<close>: from the unpacked fields and the time now,
  the new rate, the excesses, the status and the expiration. The result is the tuple and
  the expiration that line 275 hands to \<open>_set\<close>. Python's division raises
  \<open>ZeroDivisionError\<close> on a zero divisor.
\<close>

definition A1_compute :: "data \<Rightarrow> real \<Rightarrow> error + data \<times> int" where
  "A1_compute d now =
     (case d of (rate, last', excesses, status) \<Rightarrow>
        if (now - last') + 1 = 0 then Inl ZeroDivisionError
        else
          let rate = (1 + rate) / ((now - last') + 1);
              excesses =
                (if rate \<ge> A1_MAXIMUM_RATE \<and> status = STATUS_NO_BLOCK
                 then excesses + 1 else excesses);
              status =
                (if rate \<ge> A1_MAXIMUM_RATE
                 then (if A1_MAXIMUM_EXCESSES \<noteq> - 1 \<and> excesses > A1_MAXIMUM_EXCESSES
                       then STATUS_EXTENDED_BLOCK else STATUS_SHORT_BLOCK)
                 else status);
              expiration =
                (if status = STATUS_EXTENDED_BLOCK
                 then A1_EXTENDED_BLOCK_EXPIRATION else A1_EXPIRATION)
          in Inr ((rate, now, excesses, status), expiration))"

text \<open>
  Line 275 passes \<open>self.clientIdentifier\<close> as the key. The class assigns no attribute of
  that name (the constructor sets \<open>_database\<close> only), so evaluating the argument raises
  \<open>AttributeError\<close> before \<open>_set\<close> is entered.
\<close>

definition self_clientIdentifier :: "error + string option" where
  "self_clientIdentifier = Inl (AttributeError ''clientIdentifier'')"

definition A1_incrementRate ::
  "database \<Rightarrow> real \<Rightarrow> string option \<Rightarrow> (error + status) \<times> database" where
  "A1_incrementRate db now clientIdentifier =
     (case Limiter_get clientIdentifier db of
        (Inl e, db1) \<Rightarrow> (Inl e, db1)
      | (Inr v, db1) \<Rightarrow>
          if v \<noteq> None \<and> snd (snd (snd (the v))) = STATUS_EXTENDED_BLOCK
          then (Inr STATUS_EXTENDED_BLOCK, db1)
          else
            (case A1_compute (case v of None \<Rightarrow> A1_initial | Some d \<Rightarrow> d) now of
               Inl e \<Rightarrow> (Inl e, db1)
             | Inr (d', expiration) \<Rightarrow>
                 (case self_clientIdentifier of
                    Inl e \<Rightarrow> (Inl e, db1)
                  | Inr key \<Rightarrow>
                      (case Limiter_set key d' expiration db1 of
                         (Inl e, db2) \<Rightarrow> (Inl e, db2)
                       | (Inr u, db2) \<Rightarrow> (Inr (snd (snd (snd d'))), db2)))))"

subsection \<open>Algorithm 2\<close>

text \<open>The initial values of \<open>allowance, last, excesses, status\<close> (line 308).\<close>

definition A2_initial :: data where
  "A2_initial = (A2_ALLOWANCE, 0, 0, STATUS_NO_BLOCK)"

text \<open>
  Lines 321 to 353 of \<open>_A2_incrementRate\<close>: the allowance after replenishment, capping
  and spending, the excesses, the status and the expiration, as the local variables hold
  them when line 356 is reached.
\<close>

definition A2_compute :: "data \<Rightarrow> real \<Rightarrow> data \<times> int" where
  "A2_compute d now =
     (case d of (allowance, last', excesses, status) \<Rightarrow>
        let allowance = allowance + (now - last') * A2_ALLOWANCE;
            allowance = (if allowance > A2_REQUESTS then A2_REQUESTS else allowance);
            excesses =
              (if allowance < 1 \<and> status = STATUS_NO_BLOCK
               then excesses + 1 else excesses);
            status =
              (if allowance < 1
               then (if A2_MAXIMUM_EXCESSES \<noteq> - 1 \<and> excesses > A2_MAXIMUM_EXCESSES
                     then STATUS_EXTENDED_BLOCK else STATUS_SHORT_BLOCK)
               else STATUS_NO_BLOCK);
            allowance = (if allowance < 1 then allowance else allowance - 1);
            expiration =
              (if status = STATUS_EXTENDED_BLOCK
               then A2_EXTENDED_BLOCK_EXPIRATION else A2_EXPIRATION)
        in ((allowance, now, excesses, status), expiration))"

text \<open>
  Line 356 builds the tuple to store as \<open>(rate, now, excesses, status)\<close>. No variable
  \<open>rate\<close> is bound in \<open>_A2_incrementRate\<close> or in the module, so building the tuple
  raises \<open>NameError\<close> before \<open>_set\<close> is entered.
\<close>

definition A2_rate :: "error + real" where
  "A2_rate = Inl (NameError ''rate'')"

definition A2_incrementRate ::
  "database \<Rightarrow> real \<Rightarrow> string option \<Rightarrow> (error + status) \<times> database" where
  "A2_incrementRate db now clientIdentifier =
     (case Limiter_get clientIdentifier db of
        (Inl e, db1) \<Rightarrow> (Inl e, db1)
      | (Inr v, db1) \<Rightarrow>
          if v \<noteq> None \<and> snd (snd (snd (the v))) = STATUS_EXTENDED_BLOCK
          then (Inr STATUS_EXTENDED_BLOCK, db1)
          else
            (case A2_compute (case v of None \<Rightarrow> A2_initial | Some d \<Rightarrow> d) now of
               ((allowance, now', excesses, status), expiration) \<Rightarrow>
                 (case A2_rate of
                    Inl e \<Rightarrow> (Inl e, db1)
                  | Inr rate \<Rightarrow>
                      (case Limiter_set clientIdentifier (rate, now', excesses, status)
                              expiration db1 of
                         (Inl e, db2) \<Rightarrow> (Inl e, db2)
                       | (Inr u, db2) \<Rightarrow> (Inr status, db2)))))"

subsection \<open>The entry point\<close>

text \<open>\<open>incrementRate\<close> with the selected algorithm as an argument, then with the
  constant of the source.\<close>

definition incrementRate_with ::
  "int \<Rightarrow> database \<Rightarrow> real \<Rightarrow> string option \<Rightarrow> (error + status) \<times> database" where
  "incrementRate_with algorithm db now clientIdentifier =
     (if \<not> truthy clientIdentifier
      then (Inl (ValueError ''Missing or invalid client identifier''), db)
      else if algorithm = A1_ALGORITHM_ID then A1_incrementRate db now clientIdentifier
      else if algorithm = ALGORITHM_ID_A2 then A2_incrementRate db now clientIdentifier
      else if algorithm = A3_ALGORITHM_ID then (Inr STATUS_NO_BLOCK, db)
      else (Inl (ValueError ''No algorithm was selected''), db))"

definition incrementRate ::
  "database \<Rightarrow> real \<Rightarrow> string option \<Rightarrow> (error + status) \<times> database" where
  "incrementRate = incrementRate_with ALGORITHM_ID"

text \<open>A sequence of calls, each at its own time and for its own client; every call
  starts from the database the previous one left.\<close>

fun run_checks ::
  "(database \<Rightarrow> real \<Rightarrow> string option \<Rightarrow> (error + status) \<times> database) \<Rightarrow>
   (real \<times> string option) list \<Rightarrow> database \<Rightarrow> (error + status) list \<times> database" where
  "run_checks f [] db = ([], db)"
| "run_checks f ((now, cid) # cs) db =
     (case f db now cid of
        (r, db') \<Rightarrow> (case run_checks f cs db' of (rs, db'') \<Rightarrow> (r # rs, db'')))"

section \<open>Properties\<close>

subsection \<open>Shared lemmas\<close>

lemmas A1_consts = A1_MAXIMUM_RATE_def A1_MAXIMUM_EXCESSES_def
  A1_EXTENDED_BLOCK_EXPIRATION_def A1_EXPIRATION_def

lemmas A2_consts = A2_ALLOWANCE_def A2_REQUESTS_def A2_PERIOD_def A2_MAXIMUM_EXCESSES_def
  A2_EXTENDED_BLOCK_EXPIRATION_def A2_EXPIRATION_def

lemmas algorithm_ids = ALGORITHM_ID_def A1_ALGORITHM_ID_def ALGORITHM_ID_A2_def
  A3_ALGORITHM_ID_def

lemma Limiter_get_truthy:
  "truthy key \<Longrightarrow>
   Limiter_get key db =
     (Inr (map_option fst (entries db (the key))), db\<lparr>calls := calls db @ [Get (the key)]\<rparr>)"
  by (simp add: Limiter_get_def database_get_def)

lemma Limiter_get_falsy:
  "\<not> truthy key \<Longrightarrow> Limiter_get key db = (Inl (ValueError ''Missing or invalid key''), db)"
  by (simp add: Limiter_get_def)

text \<open>A stored extended block makes either algorithm return after the read.\<close>

lemma A1_extended:
  assumes "k \<noteq> []" and "entries db k = Some ((r, l, e, STATUS_EXTENDED_BLOCK), ttl)"
  shows "A1_incrementRate db now (Some k) =
           (Inr STATUS_EXTENDED_BLOCK, db\<lparr>calls := calls db @ [Get k]\<rparr>)"
  using assms by (simp add: A1_incrementRate_def Limiter_get_truthy truthy_def)

lemma A2_extended:
  assumes "k \<noteq> []" and "entries db k = Some ((r, l, e, STATUS_EXTENDED_BLOCK), ttl)"
  shows "A2_incrementRate db now (Some k) =
           (Inr STATUS_EXTENDED_BLOCK, db\<lparr>calls := calls db @ [Get k]\<rparr>)"
  using assms by (simp add: A2_incrementRate_def Limiter_get_truthy truthy_def)

lemma run_A1_extended:
  assumes "k \<noteq> []" and "entries db k = Some ((r, l, e, STATUS_EXTENDED_BLOCK), ttl)"
  shows "run_checks A1_incrementRate (map (\<lambda>t. (t, Some k)) ts) db =
           (map (\<lambda>t. Inr STATUS_EXTENDED_BLOCK) ts,
            db\<lparr>calls := calls db @ map (\<lambda>t. Get k) ts\<rparr>)"
  using assms
proof (induction ts arbitrary: db)
  case Nil
  then show ?case by simp
next
  case (Cons t ts)
  let ?db' = "db\<lparr>calls := calls db @ [Get k]\<rparr>"
  have step: "A1_incrementRate db t (Some k) = (Inr STATUS_EXTENDED_BLOCK, ?db')"
    using Cons.prems by (rule A1_extended)
  have "entries ?db' k = Some ((r, l, e, STATUS_EXTENDED_BLOCK), ttl)"
    using Cons.prems(2) by simp
  from Cons.IH [OF Cons.prems(1) this] step show ?case by simp
qed

lemma run_A2_extended:
  assumes "k \<noteq> []" and "entries db k = Some ((r, l, e, STATUS_EXTENDED_BLOCK), ttl)"
  shows "run_checks A2_incrementRate (map (\<lambda>t. (t, Some k)) ts) db =
           (map (\<lambda>t. Inr STATUS_EXTENDED_BLOCK) ts,
            db\<lparr>calls := calls db @ map (\<lambda>t. Get k) ts\<rparr>)"
  using assms
proof (induction ts arbitrary: db)
  case Nil
  then show ?case by simp
next
  case (Cons t ts)
  let ?db' = "db\<lparr>calls := calls db @ [Get k]\<rparr>"
  have step: "A2_incrementRate db t (Some k) = (Inr STATUS_EXTENDED_BLOCK, ?db')"
    using Cons.prems by (rule A2_extended)
  have "entries ?db' k = Some ((r, l, e, STATUS_EXTENDED_BLOCK), ttl)"
    using Cons.prems(2) by simp
  from Cons.IH [OF Cons.prems(1) this] step show ?case by simp
qed

subsection \<open>The extended block\<close>

text \<open>
  Claim C3. Under algorithm 1 and under algorithm 2, when the value stored for a client
  has the status \<open>STATUS_EXTENDED_BLOCK\<close>, a check for that client returns
  \<open>STATUS_EXTENDED_BLOCK\<close> at any time \<open>now\<close> (also one at which recomputing the rate
  would divide by zero), the database has seen one read and no write, and its entries are
  as before. The same holds for every further check: a sequence of checks at any times
  \<open>ts\<close> returns \<open>STATUS_EXTENDED_BLOCK\<close> each time and adds reads only.
\<close>

theorem extended_block_is_terminal:
  assumes "k \<noteq> []"
    and "entries db k = Some ((r, l, e, STATUS_EXTENDED_BLOCK), ttl)"
  shows "A1_incrementRate db now (Some k) =
           (Inr STATUS_EXTENDED_BLOCK, db\<lparr>calls := calls db @ [Get k]\<rparr>)
       \<and> A2_incrementRate db now (Some k) =
           (Inr STATUS_EXTENDED_BLOCK, db\<lparr>calls := calls db @ [Get k]\<rparr>)
       \<and> run_checks A1_incrementRate (map (\<lambda>t. (t, Some k)) ts) db =
           (map (\<lambda>t. Inr STATUS_EXTENDED_BLOCK) ts,
            db\<lparr>calls := calls db @ map (\<lambda>t. Get k) ts\<rparr>)
       \<and> run_checks A2_incrementRate (map (\<lambda>t. (t, Some k)) ts) db =
           (map (\<lambda>t. Inr STATUS_EXTENDED_BLOCK) ts,
            db\<lparr>calls := calls db @ map (\<lambda>t. Get k) ts\<rparr>)"
  using A1_extended [OF assms] A2_extended [OF assms]
    run_A1_extended [OF assms] run_A2_extended [OF assms]
  by simp

theorem extended_block_is_terminal_witness:
  "A1_incrementRate
     \<lparr>entries = [''c'' \<mapsto> ((5, 9, 31, STATUS_EXTENDED_BLOCK), 21600)], calls = []\<rparr>
     8 (Some ''c'') =
     (Inr STATUS_EXTENDED_BLOCK,
      \<lparr>entries = [''c'' \<mapsto> ((5, 9, 31, STATUS_EXTENDED_BLOCK), 21600)],
       calls = [Get ''c'']\<rparr>)
   \<and> run_checks A2_incrementRate [(8, Some ''c''), (20, Some ''c'')]
       \<lparr>entries = [''c'' \<mapsto> ((5, 9, 31, STATUS_EXTENDED_BLOCK), 21600)], calls = []\<rparr> =
     ([Inr STATUS_EXTENDED_BLOCK, Inr STATUS_EXTENDED_BLOCK],
      \<lparr>entries = [''c'' \<mapsto> ((5, 9, 31, STATUS_EXTENDED_BLOCK), 21600)],
       calls = [Get ''c'', Get ''c'']\<rparr>)"
proof -
  let ?db = "\<lparr>entries = [''c'' \<mapsto> ((5, 9, 31, STATUS_EXTENDED_BLOCK), 21600)],
              calls = []\<rparr>"
  have k: "''c'' \<noteq> []" by simp
  have stored: "entries ?db ''c'' = Some ((5, 9, 31, STATUS_EXTENDED_BLOCK), 21600)"
    by simp
  show ?thesis
    using extended_block_is_terminal [OF k stored, of 8 "[8, 20]"]
    by (simp del: run_checks.simps)
qed

subsection \<open>The client identifier\<close>

text \<open>
  Claim C6. For a client identifier that is \<open>None\<close> or the empty string,
  \<open>incrementRate\<close> raises \<open>ValueError\<close> whatever algorithm is selected (the one of the
  source included), and the database is as before: no call has reached it.
\<close>

theorem missing_identifier_is_rejected:
  assumes "\<not> truthy clientIdentifier"
  shows "incrementRate_with algorithm db now clientIdentifier =
           (Inl (ValueError ''Missing or invalid client identifier''), db)
       \<and> incrementRate db now clientIdentifier =
           (Inl (ValueError ''Missing or invalid client identifier''), db)"
  using assms by (simp add: incrementRate_def incrementRate_with_def)

theorem missing_identifier_is_rejected_witness:
  "\<not> truthy None \<and> \<not> truthy (Some [])
   \<and> incrementRate_with 1 \<lparr>entries = Map.empty, calls = []\<rparr> 7 None =
       (Inl (ValueError ''Missing or invalid client identifier''),
        \<lparr>entries = Map.empty, calls = []\<rparr>)
   \<and> incrementRate_with 2 \<lparr>entries = Map.empty, calls = []\<rparr> 7 (Some []) =
       (Inl (ValueError ''Missing or invalid client identifier''),
        \<lparr>entries = Map.empty, calls = []\<rparr>)"
proof -
  have none: "\<not> truthy None" by (simp add: truthy_def)
  have empty: "\<not> truthy (Some [])" by (simp add: truthy_def)
  show ?thesis
    using none empty
      missing_identifier_is_rejected [OF none, of 1 "\<lparr>entries = Map.empty, calls = []\<rparr>" 7]
      missing_identifier_is_rejected [OF empty, of 2 "\<lparr>entries = Map.empty, calls = []\<rparr>" 7]
    by simp
qed

subsection \<open>Algorithm 3\<close>

text \<open>
  Claim C9. With algorithm 3, the algorithm the source selects, every sequence of calls
  with non-empty client identifiers returns \<open>STATUS_NO_BLOCK\<close> at each call and leaves
  the database as it was: no read and no write has reached it.
\<close>

theorem pass_through_allows:
  assumes "\<forall>c \<in> set cs. truthy (snd c)"
  shows "run_checks incrementRate cs db = (map (\<lambda>c. Inr STATUS_NO_BLOCK) cs, db)"
  using assms
  by (induction cs arbitrary: db)
     (auto simp: incrementRate_def incrementRate_with_def algorithm_ids)

theorem pass_through_allows_witness:
  "truthy (Some ''a'') \<and> truthy (Some ''b'')
   \<and> run_checks incrementRate [(3, Some ''a''), (3, Some ''b''), (4, Some ''a'')]
       \<lparr>entries = Map.empty, calls = []\<rparr> =
     ([Inr STATUS_NO_BLOCK, Inr STATUS_NO_BLOCK, Inr STATUS_NO_BLOCK],
      \<lparr>entries = Map.empty, calls = []\<rparr>)"
proof -
  have a: "truthy (Some ''a'')" and b: "truthy (Some ''b'')"
    by (simp_all add: truthy_def)
  then have ids: "\<forall>c \<in> set [(3::real, Some ''a''), (3, Some ''b''), (4, Some ''a'')].
                    truthy (snd c)"
    by simp
  show ?thesis
    using a b pass_through_allows [OF ids, of "\<lparr>entries = Map.empty, calls = []\<rparr>"]
    by (simp del: run_checks.simps)
qed

subsection \<open>The excesses\<close>

text \<open>
  Claim C8. A client whose stored value has 3 excesses and the status
  \<open>STATUS_NO_BLOCK\<close>, checked twice over the threshold. Under algorithm 1, from
  \<open>(10, 0, 3, STATUS_NO_BLOCK)\<close> at the time 0, the new rate is 11 and lines 259 and 260
  count the fourth excess; under algorithm 2, from \<open>(0, 5, 2, STATUS_NO_BLOCK)\<close> at the
  time 5, the allowance is 0 and lines 335 and 336 count the third. Both checks then
  raise at the call of \<open>_set\<close>, so the count is not stored: the second check reads the
  same value as the first, and the database holds the old count after both.
\<close>

theorem counted_excess_is_lost:
  "A1_compute (10, 0, 3, STATUS_NO_BLOCK) 0 = Inr ((11, 0, 4, STATUS_SHORT_BLOCK), 3600)
   \<and> run_checks A1_incrementRate [(0, Some ''c''), (0, Some ''c'')]
       \<lparr>entries = [''c'' \<mapsto> ((10, 0, 3, STATUS_NO_BLOCK), 3600)], calls = []\<rparr> =
       ([Inl (AttributeError ''clientIdentifier''), Inl (AttributeError ''clientIdentifier'')],
        \<lparr>entries = [''c'' \<mapsto> ((10, 0, 3, STATUS_NO_BLOCK), 3600)],
         calls = [Get ''c'', Get ''c'']\<rparr>)
   \<and> A2_compute (0, 5, 2, STATUS_NO_BLOCK) 5 = ((0, 5, 3, STATUS_SHORT_BLOCK), 3600)
   \<and> run_checks A2_incrementRate [(5, Some ''c''), (5, Some ''c'')]
       \<lparr>entries = [''c'' \<mapsto> ((0, 5, 2, STATUS_NO_BLOCK), 3600)], calls = []\<rparr> =
       ([Inl (NameError ''rate''), Inl (NameError ''rate'')],
        \<lparr>entries = [''c'' \<mapsto> ((0, 5, 2, STATUS_NO_BLOCK), 3600)],
         calls = [Get ''c'', Get ''c'']\<rparr>)"
  by (simp add: A1_incrementRate_def A2_incrementRate_def A1_compute_def A2_compute_def
        A1_consts A2_consts Let_def Limiter_get_truthy truthy_def self_clientIdentifier_def
        A2_rate_def)

subsection \<open>The allowance\<close>

text \<open>
  Claim C10. In algorithm 2, from an allowance between 0 and \<open>A2_REQUESTS\<close> and a time
  \<open>now\<close> not before \<open>last\<close>, the allowance a check computes is between 0 and
  \<open>A2_REQUESTS\<close>: it is the replenished allowance capped at \<open>A2_REQUESTS\<close>, less 1 when
  that is at least 1.
\<close>

theorem allowance_stays_in_range:
  assumes "0 \<le> a" and "a \<le> A2_REQUESTS" and "l \<le> now"
  shows "0 \<le> fst (fst (A2_compute (a, l, e, s) now))
       \<and> fst (fst (A2_compute (a, l, e, s) now)) \<le> A2_REQUESTS
       \<and> fst (fst (A2_compute (a, l, e, s) now)) =
           (let c = min A2_REQUESTS (a + (now - l) * A2_ALLOWANCE)
            in if c < 1 then c else c - 1)"
proof -
  have "0 \<le> (now - l) * 2"
    using assms(3) by simp
  then show ?thesis
    using assms(1,2) by (auto simp: A2_compute_def A2_consts Let_def min_def)
qed

theorem allowance_stays_in_range_witness:
  "(0::real) \<le> 3 \<and> 3 \<le> A2_REQUESTS \<and> (1::real) \<le> 2
   \<and> fst (fst (A2_compute (3, 1, 0, STATUS_NO_BLOCK) 2)) = 4
   \<and> 0 \<le> fst (fst (A2_compute (3, 1, 0, STATUS_NO_BLOCK) 2))
   \<and> fst (fst (A2_compute (3, 1, 0, STATUS_NO_BLOCK) 2)) \<le> A2_REQUESTS"
proof -
  have a0: "(0::real) \<le> 3" by simp
  have a1: "3 \<le> A2_REQUESTS" by (simp add: A2_REQUESTS_def)
  have t: "(1::real) \<le> 2" by simp
  show ?thesis
    using a0 a1 t allowance_stays_in_range [OF a0 a1 t, of 0 STATUS_NO_BLOCK]
    by (simp add: A2_consts)
qed

subsection \<open>The token bucket scenario\<close>

text \<open>
  Claim C2. Algorithm 2 for a client with no stored value, checked eleven times at the
  time 0 and once at the time 1. The allowance of line 308 starts at
  \<open>A2_ALLOWANCE = A2_REQUESTS / A2_PERIOD = 2\<close>, and a check at the time 0 computes the
  status \<open>STATUS_NO_BLOCK\<close> and the allowance 1. None of the twelve checks returns a
  status: each raises \<open>NameError\<close> for \<open>rate\<close> at line 356, so nothing is stored, every
  check starts again from the initial values, and the database has seen twelve reads
  and no write.
\<close>

theorem token_bucket_scenario_raises:
  "fst A2_initial = 2
   \<and> A2_compute A2_initial 0 = ((1, 0, 0, STATUS_NO_BLOCK), 3600)
   \<and> run_checks A2_incrementRate
       [(0, Some ''c''), (0, Some ''c''), (0, Some ''c''), (0, Some ''c''),
        (0, Some ''c''), (0, Some ''c''), (0, Some ''c''), (0, Some ''c''),
        (0, Some ''c''), (0, Some ''c''), (0, Some ''c''), (1, Some ''c'')]
       \<lparr>entries = Map.empty, calls = []\<rparr> =
       ([Inl (NameError ''rate''), Inl (NameError ''rate''), Inl (NameError ''rate''),
         Inl (NameError ''rate''), Inl (NameError ''rate''), Inl (NameError ''rate''),
         Inl (NameError ''rate''), Inl (NameError ''rate''), Inl (NameError ''rate''),
         Inl (NameError ''rate''), Inl (NameError ''rate''), Inl (NameError ''rate'')],
        \<lparr>entries = Map.empty,
         calls = [Get ''c'', Get ''c'', Get ''c'', Get ''c'', Get ''c'', Get ''c'',
                  Get ''c'', Get ''c'', Get ''c'', Get ''c'', Get ''c'', Get ''c'']\<rparr>)"
  by (simp add: A2_initial_def A2_compute_def A2_consts Let_def A2_incrementRate_def
        Limiter_get_truthy truthy_def A2_rate_def)

subsection \<open>The checks at concrete inputs\<close>

text \<open>
  Claim C1. Algorithm 1 at the stored value \<open>(10, 1000, 1, STATUS_SHORT_BLOCK)\<close> and
  the time 2000: the new rate \<open>11 / 1001\<close> is below \<open>A1_MAXIMUM_RATE\<close>, and the status
  computed is still \<open>STATUS_SHORT_BLOCK\<close>, since lines 256 to 266 assign the status only
  when the rate is exceeded; the call then raises \<open>AttributeError\<close> at line 275 and
  returns no status.
\<close>

theorem short_block_is_not_cleared:
  "A1_compute (10, 1000, 1, STATUS_SHORT_BLOCK) 2000 =
     Inr ((11 / 1001, 2000, 1, STATUS_SHORT_BLOCK), 3600)
   \<and> 11 / 1001 < A1_MAXIMUM_RATE
   \<and> A1_incrementRate
        \<lparr>entries = [''c'' \<mapsto> ((10, 1000, 1, STATUS_SHORT_BLOCK), 3600)], calls = []\<rparr>
        2000 (Some ''c'') =
       (Inl (AttributeError ''clientIdentifier''),
        \<lparr>entries = [''c'' \<mapsto> ((10, 1000, 1, STATUS_SHORT_BLOCK), 3600)],
         calls = [Get ''c'']\<rparr>)"
  by (simp add: A1_compute_def A1_consts Let_def A1_incrementRate_def Limiter_get_truthy
        truthy_def self_clientIdentifier_def)

text \<open>
  Claim C4. Algorithm 2 for a client with no stored value at the time 100: the values
  computed are \<open>(9, 100, 0, STATUS_NO_BLOCK)\<close> with the expiration 3600, and the call
  raises \<open>NameError\<close> for \<open>rate\<close> while building the tuple of line 356: the database has
  seen the read only, and nothing is stored.
\<close>

theorem allowance_is_not_stored:
  "A2_compute A2_initial 100 = ((9, 100, 0, STATUS_NO_BLOCK), 3600)
   \<and> A2_incrementRate \<lparr>entries = Map.empty, calls = []\<rparr> 100 (Some ''c'') =
       (Inl (NameError ''rate''), \<lparr>entries = Map.empty, calls = [Get ''c'']\<rparr>)"
  by (simp add: A2_compute_def A2_initial_def A2_consts Let_def A2_incrementRate_def
        Limiter_get_truthy truthy_def A2_rate_def)

text \<open>
  Claim C5. A client whose stored status is \<open>STATUS_NO_BLOCK\<close>, at the time 60: under
  algorithm 1 and under algorithm 2 the database has seen one read with the client
  identifier and no write; the calls end in \<open>AttributeError\<close> and in \<open>NameError\<close>.
\<close>

theorem check_reads_and_never_writes:
  "A1_incrementRate
     \<lparr>entries = [''client'' \<mapsto> ((1, 50, 0, STATUS_NO_BLOCK), 3600)], calls = []\<rparr>
     60 (Some ''client'') =
     (Inl (AttributeError ''clientIdentifier''),
      \<lparr>entries = [''client'' \<mapsto> ((1, 50, 0, STATUS_NO_BLOCK), 3600)],
       calls = [Get ''client'']\<rparr>)
   \<and> A2_incrementRate
     \<lparr>entries = [''client'' \<mapsto> ((1, 50, 0, STATUS_NO_BLOCK), 3600)], calls = []\<rparr>
     60 (Some ''client'') =
     (Inl (NameError ''rate''),
      \<lparr>entries = [''client'' \<mapsto> ((1, 50, 0, STATUS_NO_BLOCK), 3600)],
       calls = [Get ''client'']\<rparr>)"
  by (simp add: A1_incrementRate_def A2_incrementRate_def A1_compute_def A2_compute_def
        A1_consts A2_consts Let_def Limiter_get_truthy truthy_def self_clientIdentifier_def
        A2_rate_def)

text \<open>
  Claim C7. A client never seen, at the time 0: both algorithms compute the status
  \<open>STATUS_NO_BLOCK\<close>, and neither returns it: algorithm 1 raises \<open>AttributeError\<close> and
  algorithm 2 raises \<open>NameError\<close>, here through \<open>incrementRate\<close> with each of them
  selected.
\<close>

theorem new_client_check_raises:
  "A1_compute A1_initial 0 = Inr ((1, 0, 0, STATUS_NO_BLOCK), 3600)
   \<and> A2_compute A2_initial 0 = ((1, 0, 0, STATUS_NO_BLOCK), 3600)
   \<and> fst (incrementRate_with A1_ALGORITHM_ID \<lparr>entries = Map.empty, calls = []\<rparr> 0
            (Some ''new'')) = Inl (AttributeError ''clientIdentifier'')
   \<and> fst (incrementRate_with ALGORITHM_ID_A2 \<lparr>entries = Map.empty, calls = []\<rparr> 0
            (Some ''new'')) = Inl (NameError ''rate'')"
  by (simp add: incrementRate_with_def algorithm_ids A1_incrementRate_def
        A2_incrementRate_def A1_compute_def A2_compute_def A1_initial_def A2_initial_def
        A1_consts A2_consts Let_def Limiter_get_truthy truthy_def self_clientIdentifier_def
        A2_rate_def)

end
